theory Spec2Isabelle
  imports Main
begin

section \<open>SAKData: a store of named, type-erased values\<close>

text \<open>
  The class \<open>SAKData\<close> of \<open>include/sak_data.h\<close> wraps one member,
  \<open>std::unordered_map<std::string, boost::any> mydata\<close>, and offers
  \<open>add_copy\<close>, \<open>add_ref\<close> and two overloads of \<open>get\<close>. The claims are about
  which object a call of \<open>get\<close> refers to, so the embedding keeps object
  identity: every object of the program lives at an address of one memory, and a
  reference or a non-null pointer is the address of its referent.
\<close>

subsection \<open>Types, values and memory\<close>

type_synonym addr = nat

text \<open>
  A pointee, or the type argument of a call, is plain or qualified by \<open>const\<close>;
  \<open>volatile\<close> is not modelled.
\<close>

datatype qual = Unqualified | Const

text \<open>
  A \<open>ctype\<close> is what \<open>typeid\<close> yields: the identity of a type without its
  top-level qualification, compared with \<open>==\<close> on \<open>std::type_info\<close>.
  \<open>Void\<close> is \<open>typeid(void)\<close>, the type an empty \<open>boost::any\<close> reports;
  \<open>Boost_any\<close> is \<open>boost::any\<close> itself; \<open>Named c\<close> is any other object
  type that is neither a pointer nor an array (\<open>int\<close>,
  \<open>std::vector<double>\<close>, a class);
  \<open>Pointer q t\<close> is the pointer to a plain or to a \<open>const\<close> \<open>t\<close>, as in the
  source's \<open>typeid(type *)\<close>; \<open>Array_of t n\<close> is \<open>t[n]\<close>. Two types are equal
  only when they are the same type: inheritance between classes plays no role in
  \<open>==\<close> on \<open>type_info\<close>. References and function types are not modelled.
\<close>

datatype ctype = Void | Boost_any | Named string | Pointer qual ctype | Array_of ctype nat

text \<open>
  What a \<open>boost::any\<close> can hold, a value of a type that is neither an array nor
  \<open>boost::any\<close>: an object of a named type, with a payload that the store never
  looks at, or a pointer with the qualification and the type of its pointee; a
  pointer is null (\<open>None\<close>) or holds an address.
\<close>

datatype 'a held = Object string 'a | Ptr qual ctype "addr option"

fun typeid_of :: "'a held \<Rightarrow> ctype" where
  "typeid_of (Object c x) = Named c"
| "typeid_of (Ptr q t p) = Pointer q t"

text \<open>
  What \<open>add_copy\<close> can be given, by reference to \<open>const\<close>: such a value; an
  array of \<open>n\<close> elements of type \<open>t\<close> whose first element lives at an address;
  or a \<open>boost::any\<close>, which is empty or has a content. \<open>entry_type\<close> is the
  template argument \<open>type\<close> of the call.
\<close>

datatype 'a entry =
    Value "'a held"
  | Array_entry ctype nat addr
  | Any_entry "'a held option"

fun entry_type :: "'a entry \<Rightarrow> ctype" where
  "entry_type (Value v) = typeid_of v"
| "entry_type (Array_entry t n a) = Array_of t n"
| "entry_type (Any_entry c) = Boost_any"

text \<open>
  A \<open>boost::any\<close> of the map is one pointer \<open>content\<close> to a heap-allocated
  holder of the value: null for an empty \<open>any\<close>, otherwise the address at which
  the held value lives.
\<close>

datatype any = Empty | Holder addr

text \<open>
  The state of the program: the memory; the first address that no object has
  occupied yet (\<open>new\<close> hands out \<open>brk\<close> and moves it on); the addresses
  released by \<open>delete\<close>; and the member \<open>mydata\<close> of the one \<open>SAKData\<close>
  object. The memory records the values of the objects that a \<open>boost::any\<close>
  could hold; objects of other types have addresses too, and the store never
  reads them.
\<close>

record 'a state =
  heap :: "addr \<Rightarrow> 'a held"
  brk :: addr
  freed :: "addr set"
  mydata :: "string \<rightharpoonup> any"

text \<open>
  An address is that of a live object when it has been handed out and not been
  released.
\<close>

definition valid :: "'a state \<Rightarrow> addr \<Rightarrow> bool" where
  "valid s a \<longleftrightarrow> a < brk s \<and> a \<notin> freed s"

text \<open>
  What can go wrong: the two exceptions the class declares, the two that the
  library calls it makes can throw (\<open>boost::bad_any_cast\<close> from \<open>any_cast\<close>
  on a reference, \<open>std::out_of_range\<close> from \<open>unordered_map::at\<close>), and the
  dereference of a null pointer in \<open>return *p\<close>, which C++ leaves undefined.
\<close>

datatype error =
    ExcNameNotFound string
  | ExcTypeMismatch string string
  | bad_any_cast
  | out_of_range
  | null_dereference

text \<open>
  Modelled from the spec: deal.II's macro \<open>Assert(cond, exc)\<close>, which is not part
  of the sources here. The specification describes both failures of \<open>get\<close> as
  immediate contract violations that may be surfaced as error values; so a false
  condition raises \<open>exc\<close> and nothing after it runs (the behaviour of a debug
  build).
\<close>

definition Assert :: "bool \<Rightarrow> error \<Rightarrow> error + unit" where
  "Assert cond exc = (if cond then Inr () else Inl exc)"

subsection \<open>The library operations the class calls\<close>

text \<open>\<open>new holder<T>(v)\<close>: the value is placed at the next free address.\<close>

definition alloc :: "'a held \<Rightarrow> 'a state \<Rightarrow> addr \<times> 'a state" where
  "alloc v s = (brk s, s\<lparr>heap := (heap s)(brk s := v), brk := Suc (brk s)\<rparr>)"

text \<open>
  \<open>mydata[name]\<close> on the mutable map: \<open>operator[]\<close> returns the slot of the
  name and first creates an empty one when the name is absent.
\<close>

definition subscript :: "string \<Rightarrow> 'a state \<Rightarrow> any \<times> 'a state" where
  "subscript name s =
     (case mydata s name of
        Some c \<Rightarrow> (c, s)
      | None \<Rightarrow> (Empty, s\<lparr>mydata := (mydata s)(name \<mapsto> Empty)\<rparr>))"

text \<open>\<open>mydata.at(name)\<close> on the constant map: no slot is created.\<close>

definition map_at :: "string \<Rightarrow> 'a state \<Rightarrow> error + any" where
  "map_at name s =
     (case mydata s name of Some c \<Rightarrow> Inr c | None \<Rightarrow> Inl out_of_range)"

text \<open>
  The constructor template \<open>any(const ValueType &)\<close>: a new holder of the
  value.
\<close>

definition any_of_value :: "'a held \<Rightarrow> 'a state \<Rightarrow> any \<times> 'a state" where
  "any_of_value v s = (let (h, s1) = alloc v s in (Holder h, s1))"

text \<open>
  The copy constructor \<open>any(const any &)\<close>: empty for an empty \<open>any\<close>,
  otherwise a new holder with a clone of the content.
\<close>

definition any_of_any :: "'a held option \<Rightarrow> 'a state \<Rightarrow> any \<times> 'a state" where
  "any_of_any c s = (case c of None \<Rightarrow> (Empty, s) | Some v \<Rightarrow> any_of_value v s)"

text \<open>
  The \<open>boost::any\<close> made from the right-hand side of an assignment. For a
  \<open>boost::any\<close> overload resolution takes the copy constructor. For anything
  else it takes the template, which holds the decayed type: an array, bound to a
  reference to \<open>const\<close>, decays to the pointer to its first element, of type
  \<open>const t *\<close> (in the versions of Boost that accept an array argument; the
  earlier ones do not compile the call).
\<close>

fun make_any :: "'a entry \<Rightarrow> 'a state \<Rightarrow> any \<times> 'a state" where
  "make_any (Value v) s = any_of_value v s"
| "make_any (Array_entry t n a) s = any_of_value (Ptr Const t (Some a)) s"
| "make_any (Any_entry c) s = any_of_any c s"

text \<open>The destructor of a \<open>boost::any\<close>: \<open>delete content\<close>.\<close>

definition destroy :: "any \<Rightarrow> 'a state \<Rightarrow> 'a state" where
  "destroy c s = (case c of Empty \<Rightarrow> s | Holder h \<Rightarrow> s\<lparr>freed := insert h (freed s)\<rparr>)"

text \<open>
  \<open>mydata[name] = rhs\<close>: the slot is looked up (or created), then the
  assignment operator of \<open>boost::any\<close> runs \<open>any(rhs).swap(*this)\<close>: it makes
  a temporary from the right-hand side, exchanges its content with the slot's,
  and the temporary, which now has the old content, is destroyed.
\<close>

definition assign_any :: "'a entry \<Rightarrow> string \<Rightarrow> 'a state \<Rightarrow> 'a state" where
  "assign_any rhs name s =
     (let (old, s1) = subscript name s;
          (tmp, s2) = make_any rhs s1;
          s3 = s2\<lparr>mydata := (mydata s2)(name \<mapsto> tmp)\<rparr>
      in destroy old s3)"

text \<open>\<open>a.type()\<close>: the type of the held value, \<open>typeid(void)\<close> when empty.\<close>

definition any_type :: "(addr \<Rightarrow> 'a held) \<Rightarrow> any \<Rightarrow> ctype" where
  "any_type m c = (case c of Empty \<Rightarrow> Void | Holder h \<Rightarrow> typeid_of (m h))"

text \<open>
  \<open>boost::any_cast<T>(any *)\<close>: the address of the held value when its type is
  \<open>T\<close>, a null pointer otherwise.
\<close>

definition any_cast_ptr :: "ctype \<Rightarrow> (addr \<Rightarrow> 'a held) \<Rightarrow> any \<Rightarrow> addr option" where
  "any_cast_ptr t m c =
     (case c of
        Empty \<Rightarrow> None
      | Holder h \<Rightarrow> if typeid_of (m h) = t then Some h else None)"

text \<open>
  \<open>boost::any_cast<T>(any &)\<close>: a copy of the held value, or
  \<open>bad_any_cast\<close> when the pointer form returns null.
\<close>

definition any_cast :: "ctype \<Rightarrow> (addr \<Rightarrow> 'a held) \<Rightarrow> any \<Rightarrow> error + 'a held" where
  "any_cast t m c =
     (case any_cast_ptr t m c of None \<Rightarrow> Inl bad_any_cast | Some h \<Rightarrow> Inr (m h))"

text \<open>
  The result of \<open>any_cast<type *>\<close> is a pointer; \<open>the_pointer\<close> reads the
  address out of a value of pointer type.
\<close>

fun the_pointer :: "'a held \<Rightarrow> error + addr option" where
  "the_pointer (Ptr q t p) = Inr p"
| "the_pointer (Object c x) = Inl bad_any_cast"

text \<open>\<open>return *p\<close>: the reference is the address the pointer holds.\<close>

definition deref :: "addr option \<Rightarrow> error + addr" where
  "deref p = (case p of None \<Rightarrow> Inl null_dereference | Some a \<Rightarrow> Inr a)"

text \<open>
  An assignment \<open>r = v\<close> through a reference \<open>r\<close> to the object at address
  \<open>a\<close>, or to the variable itself: what a caller does with the result of
  \<open>get\<close>.
\<close>

definition assign :: "addr \<Rightarrow> 'a held \<Rightarrow> 'a state \<Rightarrow> 'a state" where
  "assign a v s = s\<lparr>heap := (heap s)(a := v)\<rparr>"

text \<open>
  One implementation of \<open>std::type_info::name()\<close>, which C++ leaves to the
  compiler, in the manner of the Itanium ABI (\<open>P\<close> for a pointer, \<open>K\<close> for
  \<open>const\<close>; the length of an array is left out). The operations below take the
  implementation as a parameter; this one serves in the examples.
\<close>

fun type_name :: "ctype \<Rightarrow> string" where
  "type_name Void = ''v''"
| "type_name Boost_any = ''N5boost3anyE''"
| "type_name (Named c) = c"
| "type_name (Pointer Unqualified t) = CHR ''P'' # type_name t"
| "type_name (Pointer Const t) = CHR ''P'' # CHR ''K'' # type_name t"
| "type_name (Array_of t n) = CHR ''A'' # CHR ''_'' # type_name t"

subsection \<open>The members of SAKData\<close>

text \<open>
  \<open>add_copy<type>(entry, name)\<close> is \<open>mydata[name] = entry\<close>, with \<open>entry\<close> a
  reference to a \<open>const type\<close>.
\<close>

definition add_copy :: "'a entry \<Rightarrow> string \<Rightarrow> 'a state \<Rightarrow> 'a state" where
  "add_copy entry name s = assign_any entry name s"

text \<open>
  \<open>add_ref<type>(entry, name)\<close> is \<open>type *ptr = &entry; mydata[name] = ptr\<close>.
  The template argument is the type \<open>type\<close> with its qualification \<open>q\<close>. The
  variable \<open>entry\<close> is given by its address; the address of a variable is never
  null.
\<close>

definition add_ref :: "qual \<Rightarrow> ctype \<Rightarrow> addr \<Rightarrow> string \<Rightarrow> 'a state \<Rightarrow> 'a state" where
  "add_ref q type entry name s =
     (let ptr = Ptr q type (Some entry) in assign_any (Value ptr) name s)"

text \<open>
  The mutable \<open>get<type>(name)\<close>, the template argument being \<open>type\<close> with
  its qualification \<open>q\<close>: \<open>typeid(type *)\<close> is the pointer to that qualified
  type, and \<open>typeid(type)\<close> drops the qualification. Every \<open>mydata[name]\<close> of
  the source is a call of \<open>subscript\<close>, which may change the map, so the state
  is threaded through and returned with the result. \<open>nm\<close> is
  \<open>type_info::name()\<close>.
\<close>

definition get ::
  "(ctype \<Rightarrow> string) \<Rightarrow> qual \<Rightarrow> ctype \<Rightarrow> string \<Rightarrow> 'a state \<Rightarrow>
     (error + addr) \<times> 'a state" where
  "get nm q type name s =
     (case Assert (mydata s name \<noteq> None) (ExcNameNotFound name) of
        Inl e \<Rightarrow> (Inl e, s)
      | Inr u \<Rightarrow>
          let (c1, s1) = subscript name s in
          if any_type (heap s1) c1 = Pointer q type then
            let (c2, s2) = subscript name s1 in
            (case any_cast (Pointer q type) (heap s2) c2 of
               Inl e \<Rightarrow> (Inl e, s2)
             | Inr v \<Rightarrow>
                 (case the_pointer v of
                    Inl e \<Rightarrow> (Inl e, s2)
                  | Inr p \<Rightarrow> (deref p, s2)))
          else
            let (c3, s3) = subscript name s1 in
            if any_type (heap s3) c3 = type then
              let (c4, s4) = subscript name s3;
                  p = any_cast_ptr type (heap s4) c4
              in (deref p, s4)
            else
              let (c5, s5) = subscript name s3 in
              (case Assert False
                      (ExcTypeMismatch (nm type) (nm (any_type (heap s5) c5))) of
                 Inl e \<Rightarrow> (Inl e, s5)
               | Inr u \<Rightarrow> (deref None, s5)))"

text \<open>
  The read-only \<open>get<type>(name) const\<close>. It reads the map with \<open>at\<close> and
  cannot change the object, so it returns the result only.
\<close>

definition get_const ::
  "(ctype \<Rightarrow> string) \<Rightarrow> qual \<Rightarrow> ctype \<Rightarrow> string \<Rightarrow> 'a state \<Rightarrow> error + addr" where
  "get_const nm q type name s =
     (case Assert (mydata s name \<noteq> None) (ExcNameNotFound name) of
        Inl e \<Rightarrow> Inl e
      | Inr u \<Rightarrow>
          (case map_at name s of
             Inl e \<Rightarrow> Inl e
           | Inr c1 \<Rightarrow>
               if any_type (heap s) c1 = Pointer q type then
                 (case map_at name s of
                    Inl e \<Rightarrow> Inl e
                  | Inr c2 \<Rightarrow>
                      (case any_cast (Pointer q type) (heap s) c2 of
                         Inl e \<Rightarrow> Inl e
                       | Inr v \<Rightarrow>
                           (case the_pointer v of
                              Inl e \<Rightarrow> Inl e
                            | Inr p \<Rightarrow> deref p)))
               else
                 (case map_at name s of
                    Inl e \<Rightarrow> Inl e
                  | Inr c3 \<Rightarrow>
                      if any_type (heap s) c3 = type then
                        (case map_at name s of
                           Inl e \<Rightarrow> Inl e
                         | Inr c4 \<Rightarrow> deref (any_cast_ptr type (heap s) c4))
                      else
                        (case map_at name s of
                           Inl e \<Rightarrow> Inl e
                         | Inr c5 \<Rightarrow>
                             (case Assert False
                                     (ExcTypeMismatch (nm type)
                                        (nm (any_type (heap s) c5))) of
                                Inl e \<Rightarrow> Inl e
                              | Inr u \<Rightarrow> deref None)))))"

subsection \<open>States and observations used in the statements\<close>

text \<open>
  A program with two variables, an \<open>int\<close> at address 0 and a \<open>double\<close> at
  address 1, and a \<open>SAKData\<close> that is still empty.
\<close>

definition start :: "int state" where
  "start = \<lparr>heap = (\<lambda>a. if a = 0 then Object ''int'' 5 else Object ''double'' 2),
            brk = 2, freed = {}, mydata = Map.empty\<rparr>"

text \<open>
  What the \<open>boost::any\<close> made from an entry holds: the value itself, the
  pointer an array decays to, or the content of a \<open>boost::any\<close>.
\<close>

fun content_of :: "'a entry \<Rightarrow> 'a held option" where
  "content_of (Value v) = Some v"
| "content_of (Array_entry t n a) = Some (Ptr Const t (Some a))"
| "content_of (Any_entry c) = c"

text \<open>
  \<open>allocated s m\<close>: the holder of the slot of \<open>m\<close>, when there is one, is an
  address that \<open>new\<close> has handed out.
\<close>

definition allocated :: "'a state \<Rightarrow> string \<Rightarrow> bool" where
  "allocated s m =
     (case mydata s m of Some (Holder h) \<Rightarrow> h < brk s | Some Empty \<Rightarrow> True | None \<Rightarrow> True)"

text \<open>
  \<open>holder_valid s m\<close>: the holder of the slot of \<open>m\<close>, when there is one, is a
  live object.
\<close>

definition holder_valid :: "'a state \<Rightarrow> string \<Rightarrow> bool" where
  "holder_valid s m =
     (case mydata s m of Some (Holder h) \<Rightarrow> valid s h | Some Empty \<Rightarrow> True | None \<Rightarrow> True)"

text \<open>
  \<open>holders_ok s\<close>: every slot's holder is a live object, no two slots share a
  holder, and only addresses that were handed out have been released. This is
  what the class maintains.
\<close>

definition holders_ok :: "'a state \<Rightarrow> bool" where
  "holders_ok s \<longleftrightarrow>
     (\<forall>n h. mydata s n = Some (Holder h) \<longrightarrow>
        valid s h \<and> (\<forall>m. mydata s m = Some (Holder h) \<longrightarrow> m = n)) \<and>
     (\<forall>a \<in> freed s. a < brk s)"

text \<open>
  What a slot shows to the outside: the type its \<open>any\<close> reports and the value it
  holds.
\<close>

definition slot_type :: "'a state \<Rightarrow> string \<Rightarrow> ctype option" where
  "slot_type s m = map_option (any_type (heap s)) (mydata s m)"

definition slot_value :: "'a state \<Rightarrow> string \<Rightarrow> 'a held option" where
  "slot_value s m =
     (case mydata s m of
        Some (Holder h) \<Rightarrow> Some (heap s h)
      | Some Empty \<Rightarrow> None
      | None \<Rightarrow> None)"

text \<open>
  \<open>target_valid q type name s\<close>: when the slot of the name holds a pointer of
  the type \<open>typeid(type *)\<close> that \<open>get<type>\<close> looks for, the pointer is not
  null and points to a live object. \<open>add_ref\<close> stores the address of a
  variable; \<open>add_copy\<close> stores whatever pointer it is given.
\<close>

definition target_valid :: "qual \<Rightarrow> ctype \<Rightarrow> string \<Rightarrow> 'a state \<Rightarrow> bool" where
  "target_valid q type name s =
     (case mydata s name of
        Some (Holder h) \<Rightarrow>
          (case heap s h of
             Ptr q' t p \<Rightarrow>
               if q' = q \<and> t = type
               then (case p of None \<Rightarrow> False | Some a \<Rightarrow> valid s a)
               else True
           | Object c x \<Rightarrow> True)
      | Some Empty \<Rightarrow> True
      | None \<Rightarrow> True)"

text \<open>
  \<open>all_or_nothing nm q type name s res\<close>: the result \<open>res\<close> of a \<open>get\<close> is a
  reference to a live object, which is the value held in the slot or the object
  the held pointer points to; or it is \<open>ExcNameNotFound\<close> with the name, for an
  absent name; or it is \<open>ExcTypeMismatch\<close> with the names of the requested type
  and of the type the slot records, for a present one; it is nothing else.
\<close>

definition all_or_nothing ::
  "(ctype \<Rightarrow> string) \<Rightarrow> qual \<Rightarrow> ctype \<Rightarrow> string \<Rightarrow> 'a state \<Rightarrow> error + addr \<Rightarrow> bool"
  where
  "all_or_nothing nm q type name s res =
     (case res of
        Inr r \<Rightarrow>
          valid s r \<and>
          (case mydata s name of
             Some (Holder h) \<Rightarrow>
               (r = h \<and> typeid_of (heap s h) = type) \<or> heap s h = Ptr q type (Some r)
           | Some Empty \<Rightarrow> False
           | None \<Rightarrow> False)
      | Inl (ExcNameNotFound k) \<Rightarrow> k = name \<and> mydata s name = None
      | Inl (ExcTypeMismatch req st) \<Rightarrow>
          req = nm type \<and>
          (case mydata s name of
             Some c \<Rightarrow> st = nm (any_type (heap s) c)
           | None \<Rightarrow> False)
      | Inl bad_any_cast \<Rightarrow> False
      | Inl out_of_range \<Rightarrow> False
      | Inl null_dereference \<Rightarrow> False)"

section \<open>Basic facts\<close>

lemma Pointer_neq_self: "Pointer q t \<noteq> t"
  by (induction t) auto

lemma typeid_of_Pointer: "typeid_of v = Pointer q t \<longleftrightarrow> (\<exists>p. v = Ptr q t p)"
  by (cases v) auto

lemma subscript_present: "mydata s name = Some c \<Longrightarrow> subscript name s = (c, s)"
  by (simp add: subscript_def)

lemma map_at_present: "mydata s name = Some c \<Longrightarrow> map_at name s = Inr c"
  by (simp add: map_at_def)

lemma get_absent:
  "mydata s name = None \<Longrightarrow> get nm q type name s = (Inl (ExcNameNotFound name), s)"
  by (simp add: get_def Assert_def)

lemma get_const_absent:
  "mydata s name = None \<Longrightarrow> get_const nm q type name s = Inl (ExcNameNotFound name)"
  by (simp add: get_const_def Assert_def)

lemma get_empty:
  "mydata s name = Some Empty \<Longrightarrow>
   get nm q type name s =
     (if type = Void then Inl null_dereference
      else Inl (ExcTypeMismatch (nm type) (nm Void)), s)"
  by (simp add: get_def Assert_def subscript_present any_type_def any_cast_ptr_def
      deref_def)

lemma get_holder:
  "mydata s name = Some (Holder h) \<Longrightarrow>
   get nm q type name s =
     (if typeid_of (heap s h) = Pointer q type
        then (case the_pointer (heap s h) of Inl e \<Rightarrow> Inl e | Inr p \<Rightarrow> deref p)
      else if typeid_of (heap s h) = type then Inr h
      else Inl (ExcTypeMismatch (nm type) (nm (typeid_of (heap s h)))), s)"
  by (simp add: get_def Assert_def subscript_present any_type_def any_cast_ptr_def
      any_cast_def deref_def split: sum.splits)

lemma get_const_empty:
  "mydata s name = Some Empty \<Longrightarrow>
   get_const nm q type name s =
     (if type = Void then Inl null_dereference
      else Inl (ExcTypeMismatch (nm type) (nm Void)))"
  by (simp add: get_const_def Assert_def map_at_present any_type_def any_cast_ptr_def
      deref_def)

lemma get_const_holder:
  "mydata s name = Some (Holder h) \<Longrightarrow>
   get_const nm q type name s =
     (if typeid_of (heap s h) = Pointer q type
        then (case the_pointer (heap s h) of Inl e \<Rightarrow> Inl e | Inr p \<Rightarrow> deref p)
      else if typeid_of (heap s h) = type then Inr h
      else Inl (ExcTypeMismatch (nm type) (nm (typeid_of (heap s h)))))"
  by (simp add: get_const_def Assert_def map_at_present any_type_def any_cast_ptr_def
      any_cast_def deref_def)

lemma get_state: "snd (get nm q type name s) = s"
proof (cases "mydata s name")
  case None
  then show ?thesis by (simp add: get_absent)
next
  case (Some c)
  then show ?thesis by (cases c) (simp_all add: get_empty get_holder)
qed

lemma get_const_eq: "get_const nm q type name s = fst (get nm q type name s)"
proof (cases "mydata s name")
  case None
  then show ?thesis by (simp add: get_absent get_const_absent)
next
  case (Some c)
  then show ?thesis
    by (cases c) (simp_all add: get_empty get_holder get_const_empty get_const_holder)
qed

text \<open>The effect of an assignment to a slot, field by field.\<close>

lemma make_any_content:
  "make_any e s =
     (case content_of e of
        None \<Rightarrow> (Empty, s)
      | Some v \<Rightarrow> (Holder (brk s), s\<lparr>heap := (heap s)(brk s := v), brk := Suc (brk s)\<rparr>))"
  by (cases e) (simp_all add: any_of_value_def any_of_any_def alloc_def split: option.splits)

lemma assign_any_mydata:
  "mydata (assign_any e name s) =
     (mydata s)(name \<mapsto> (case content_of e of None \<Rightarrow> Empty | Some v \<Rightarrow> Holder (brk s)))"
  by (simp add: assign_any_def subscript_def make_any_content destroy_def Let_def
      split: option.splits any.splits)

lemma assign_any_heap:
  "heap (assign_any e name s) =
     (case content_of e of None \<Rightarrow> heap s | Some v \<Rightarrow> (heap s)(brk s := v))"
  by (simp add: assign_any_def subscript_def make_any_content destroy_def Let_def
      split: option.splits any.splits)

lemma assign_any_brk:
  "brk (assign_any e name s) =
     (case content_of e of None \<Rightarrow> brk s | Some v \<Rightarrow> Suc (brk s))"
  by (simp add: assign_any_def subscript_def make_any_content destroy_def Let_def
      split: option.splits any.splits)

lemma assign_any_freed:
  "freed (assign_any e name s) =
     (case mydata s name of
        Some (Holder h) \<Rightarrow> insert h (freed s)
      | Some Empty \<Rightarrow> freed s
      | None \<Rightarrow> freed s)"
  by (simp add: assign_any_def subscript_def make_any_content destroy_def Let_def
      split: option.splits any.splits)

lemmas add_copy_simps =
  assign_any_mydata [folded add_copy_def] assign_any_heap [folded add_copy_def]
  assign_any_brk [folded add_copy_def] assign_any_freed [folded add_copy_def]

lemma add_ref_simps:
  "mydata (add_ref q t a name s) = (mydata s)(name \<mapsto> Holder (brk s))"
  "heap (add_ref q t a name s) = (heap s)(brk s := Ptr q t (Some a))"
  "brk (add_ref q t a name s) = Suc (brk s)"
  "freed (add_ref q t a name s) =
     (case mydata s name of
        Some (Holder h) \<Rightarrow> insert h (freed s)
      | Some Empty \<Rightarrow> freed s
      | None \<Rightarrow> freed s)"
  by (simp_all add: add_ref_def assign_any_mydata assign_any_heap assign_any_brk
      assign_any_freed)

lemma assign_simps:
  "mydata (assign a v s) = mydata s"
  "heap (assign a v s) = (heap s)(a := v)"
  "brk (assign a v s) = brk s"
  "freed (assign a v s) = freed s"
  by (simp_all add: assign_def)

text \<open>What \<open>get\<close> answers right after an insertion under the same name.\<close>

lemma get_add_copy_value:
  "get nm q type name (add_copy (Value v) name s) =
     (if typeid_of v = Pointer q type
        then (case the_pointer v of Inl e \<Rightarrow> Inl e | Inr p \<Rightarrow> deref p)
      else if typeid_of v = type then Inr (brk s)
      else Inl (ExcTypeMismatch (nm type) (nm (typeid_of v))), add_copy (Value v) name s)"
  by (subst get_holder [where h = "brk s"]) (simp_all add: add_copy_simps)

lemma get_add_copy:
  "get nm q type name (add_copy e name s) =
     (case content_of e of
        None \<Rightarrow>
          if type = Void then Inl null_dereference
          else Inl (ExcTypeMismatch (nm type) (nm Void))
      | Some v \<Rightarrow>
          if typeid_of v = Pointer q type
            then (case the_pointer v of Inl e \<Rightarrow> Inl e | Inr p \<Rightarrow> deref p)
          else if typeid_of v = type then Inr (brk s)
          else Inl (ExcTypeMismatch (nm type) (nm (typeid_of v))),
      add_copy e name s)"
proof (cases "content_of e")
  case None
  then have "mydata (add_copy e name s) name = Some Empty"
    by (simp add: add_copy_simps)
  then show ?thesis
    by (simp add: get_empty None)
next
  case (Some v)
  then have "mydata (add_copy e name s) name = Some (Holder (brk s))"
    and "heap (add_copy e name s) (brk s) = v"
    by (simp_all add: add_copy_simps)
  then show ?thesis
    by (simp add: get_holder Some)
qed

lemma get_add_ref:
  "get nm q type name (add_ref qa t a name s) =
     (if qa = q \<and> t = type then Inr a
      else if Pointer qa t = type then Inr (brk s)
      else Inl (ExcTypeMismatch (nm type) (nm (Pointer qa t))), add_ref qa t a name s)"
  by (subst get_holder [where h = "brk s"]) (auto simp: add_ref_simps deref_def)

text \<open>A slot whose map entry and held value are the same answers the same.\<close>

lemma get_other_name:
  assumes "mydata s' m = mydata s m"
    and "\<And>h. mydata s m = Some (Holder h) \<Longrightarrow> heap s' h = heap s h"
  shows "fst (get nm q type m s') = fst (get nm q type m s)"
proof (cases "mydata s m")
  case None
  with assms(1) show ?thesis by (simp add: get_absent)
next
  case (Some c)
  show ?thesis
  proof (cases c)
    case Empty
    with Some assms(1) show ?thesis by (simp add: get_empty)
  next
    case (Holder h)
    with Some assms show ?thesis by (simp add: get_holder)
  qed
qed

lemma slot_other_name:
  assumes "mydata s' m = mydata s m"
    and "\<And>h. mydata s m = Some (Holder h) \<Longrightarrow> heap s' h = heap s h"
  shows "slot_type s' m = slot_type s m \<and> slot_value s' m = slot_value s m"
proof (cases "mydata s m")
  case None
  with assms(1) show ?thesis by (simp add: slot_type_def slot_value_def)
next
  case (Some c)
  show ?thesis
  proof (cases c)
    case Empty
    with Some assms(1) show ?thesis
      by (simp add: slot_type_def slot_value_def any_type_def)
  next
    case (Holder h)
    with Some assms show ?thesis
      by (simp add: slot_type_def slot_value_def any_type_def)
  qed
qed

lemma slot_after_add_copy:
  "slot_value (add_copy e k s) k = content_of e"
  "slot_type (add_copy e k s) k =
     Some (case content_of e of None \<Rightarrow> Void | Some v \<Rightarrow> typeid_of v)"
  by (simp_all add: slot_value_def slot_type_def any_type_def add_copy_simps
      split: option.splits)

lemma slot_after_add_ref:
  "slot_value (add_ref q t x k s) k = Some (Ptr q t (Some x))"
  "slot_type (add_ref q t x k s) k = Some (Pointer q t)"
  by (simp_all add: slot_value_def slot_type_def any_type_def add_ref_simps)

text \<open>
  The holders of the slots are allocated addresses in the empty store, and every
  operation keeps them so.
\<close>

lemma allocated_start: "allocated start m"
  by (simp add: allocated_def start_def)

lemma allocated_add_copy: "allocated s m \<Longrightarrow> allocated (add_copy e n s) m"
  by (auto simp: allocated_def add_copy_simps split: option.splits any.splits)

lemma allocated_add_ref: "allocated s m \<Longrightarrow> allocated (add_ref q t a n s) m"
  by (auto simp: allocated_def add_ref_simps split: option.splits any.splits)

lemma allocated_assign: "allocated s m \<Longrightarrow> allocated (assign a v s) m"
  by (auto simp: allocated_def assign_simps split: option.splits any.splits)

lemma allocated_get: "allocated s m \<Longrightarrow> allocated (snd (get nm q type n s)) m"
  by (simp add: get_state)

text \<open>
  The same for \<open>holders_ok\<close>: it holds of the empty store, every operation keeps
  it, and it gives \<open>holder_valid\<close> and \<open>allocated\<close> for every name.
\<close>

lemma holders_ok_start: "holders_ok start"
  by (simp add: holders_ok_def start_def)

lemma holders_ok_assign_any:
  assumes "holders_ok s"
  shows "holders_ok (assign_any e n s)"
proof -
  let ?s' = "assign_any e n s"
  from assms have live: "valid s h" if "mydata s k = Some (Holder h)" for k h
    using that by (auto simp: holders_ok_def)
  from assms have inj: "k = m"
    if "mydata s k = Some (Holder h)" "mydata s m = Some (Holder h)" for k m h
    using that by (auto simp: holders_ok_def)
  from assms have low: "a < brk s" if "a \<in> freed s" for a
    using that by (auto simp: holders_ok_def)
  have brk: "brk s \<le> brk ?s'"
    by (simp add: assign_any_brk split: option.splits)
  have fr: "a \<in> freed ?s' \<longleftrightarrow> a \<in> freed s \<or> mydata s n = Some (Holder a)" for a
    by (auto simp: assign_any_freed split: option.splits any.splits)
  have new: "h = brk s \<and> brk ?s' = Suc (brk s)" if "mydata ?s' n = Some (Holder h)" for h
    using that by (auto simp: assign_any_mydata assign_any_brk split: option.splits)
  have other: "mydata ?s' k = mydata s k" if "k \<noteq> n" for k
    using that by (simp add: assign_any_mydata)
  have fresh: "\<not> valid s (brk s)"
    by (simp add: valid_def)
  have v: "valid ?s' h" if slot: "mydata ?s' k = Some (Holder h)" for k h
  proof (cases "k = n")
    case True
    with slot new have h: "h = brk s" "brk ?s' = Suc (brk s)"
      by auto
    have "brk s \<notin> freed ?s'"
      using low live fresh by (auto simp: fr)
    with h show ?thesis
      by (simp add: valid_def)
  next
    case False
    with slot other have old: "mydata s k = Some (Holder h)"
      by simp
    from live [OF old] have "h < brk s" "h \<notin> freed s"
      by (simp_all add: valid_def)
    moreover have "mydata s n \<noteq> Some (Holder h)"
      using inj [OF old] False by auto
    ultimately show ?thesis
      using brk by (simp add: valid_def fr)
  qed
  have i: "m = k"
    if sk: "mydata ?s' k = Some (Holder h)" and sm: "mydata ?s' m = Some (Holder h)"
    for k m h
  proof (cases "k = n")
    case kn: True
    show ?thesis
    proof (cases "m = n")
      case True
      with kn show ?thesis by simp
    next
      case False
      with sm other have "mydata s m = Some (Holder h)"
        by simp
      from live [OF this] new sk kn fresh show ?thesis
        by auto
    qed
  next
    case kn: False
    with sk other have old: "mydata s k = Some (Holder h)"
      by simp
    show ?thesis
    proof (cases "m = n")
      case True
      with sm new live [OF old] fresh show ?thesis
        by auto
    next
      case False
      with sm other have "mydata s m = Some (Holder h)"
        by simp
      with old show ?thesis
        by (rule inj [symmetric])
    qed
  qed
  have l: "a < brk ?s'" if "a \<in> freed ?s'" for a
  proof -
    from that have "a \<in> freed s \<or> mydata s n = Some (Holder a)"
      by (simp add: fr)
    then have "a < brk s"
      using low live by (auto simp: valid_def)
    with brk show ?thesis
      by simp
  qed
  from v i l show ?thesis
    unfolding holders_ok_def by blast
qed

lemma holders_ok_add_copy: "holders_ok s \<Longrightarrow> holders_ok (add_copy e n s)"
  by (simp add: add_copy_def holders_ok_assign_any)

lemma holders_ok_add_ref: "holders_ok s \<Longrightarrow> holders_ok (add_ref q t a n s)"
  by (simp add: add_ref_def holders_ok_assign_any)

lemma holders_ok_assign: "holders_ok s \<Longrightarrow> holders_ok (assign a v s)"
  by (simp add: holders_ok_def valid_def assign_simps)

lemma holders_ok_get: "holders_ok s \<Longrightarrow> holders_ok (snd (get nm q type n s))"
  by (simp add: get_state)

lemma holders_ok_holder_valid: "holders_ok s \<Longrightarrow> holder_valid s m"
  by (auto simp: holders_ok_def holder_valid_def split: option.splits any.splits)

lemma holders_ok_allocated: "holders_ok s \<Longrightarrow> allocated s m"
  by (auto simp: holders_ok_def allocated_def valid_def split: option.splits any.splits)

section \<open>The claims\<close>

subsection \<open>C1: an owned value is retrieved, and retrieved from the same storage\<close>

text \<open>
  Claim C1 says that after \<open>add_copy\<close> of a value of any type \<open>T\<close>,
  \<open>get<T>\<close> succeeds with an equal value. For \<open>T = boost::any\<close> the assignment
  \<open>mydata[name] = entry\<close> is the copy assignment of \<open>boost::any\<close>: the slot
  takes the content of the entry, here an \<open>int\<close>, and \<open>get<boost::any>\<close>
  fails with \<open>ExcTypeMismatch\<close>. For \<open>T = int[3]\<close> the slot takes the
  pointer the array decays to, and \<open>get<int[3]>\<close> fails likewise.
\<close>

theorem add_copy_get_counterexample:
  "entry_type (Any_entry (Some (Object ''int'' 7)) :: int entry) = Boost_any \<and>
   fst (get type_name Unqualified Boost_any ''x''
          (add_copy (Any_entry (Some (Object ''int'' 7))) ''x'' start)) =
     Inl (ExcTypeMismatch ''N5boost3anyE'' ''int'') \<and>
   entry_type (Array_entry (Named ''int'') 3 0 :: int entry) = Array_of (Named ''int'') 3 \<and>
   fst (get type_name Unqualified (Array_of (Named ''int'') 3) ''y''
          (add_copy (Array_entry (Named ''int'') 3 0 :: int entry) ''y'' start)) =
     Inl (ExcTypeMismatch ''A_int'' ''PKint'')"
  by (simp add: get_add_copy)

text \<open>
  Claim C1, amended. Let \<open>v\<close> be a value of a type \<open>type\<close> that is neither
  \<open>boost::any\<close> nor an array. After \<open>add_copy\<close> of \<open>v\<close> under a name,
  \<open>get<type>\<close> of the name, in both forms, succeeds with a reference \<open>r\<close> whose
  referent equals \<open>v\<close>. After an assignment of a value \<open>v'\<close> of the same type
  through \<open>r\<close>, the next \<open>get<type>\<close> returns the same reference \<open>r\<close>, and its
  referent is \<open>v'\<close>: both calls resolve to the holder that the store owns.
\<close>

theorem add_copy_get:
  "typeid_of v' = typeid_of v \<Longrightarrow>
   (let type = typeid_of v; s1 = add_copy (Value v) n s; r = brk s; s2 = assign r v' s1
    in get nm q type n s1 = (Inr r, s1) \<and> heap s1 r = v \<and>
       get nm q type n s2 = (Inr r, s2) \<and> heap s2 r = v' \<and>
       get_const nm q type n s1 = Inr r \<and> get_const nm q type n s2 = Inr r)"
proof -
  assume same: "typeid_of v' = typeid_of v"
  let ?s1 = "add_copy (Value v) n s"
  let ?s2 = "assign (brk s) v' ?s1"
  have g1: "get nm q (typeid_of v) n ?s1 = (Inr (brk s), ?s1)"
    by (simp add: get_add_copy_value Pointer_neq_self)
  have slot: "mydata ?s2 n = Some (Holder (brk s))"
    by (simp add: assign_simps add_copy_simps)
  have held: "heap ?s2 (brk s) = v'"
    by (simp add: assign_simps)
  have g2: "get nm q (typeid_of v) n ?s2 = (Inr (brk s), ?s2)"
    by (simp add: get_holder [OF slot] held same Pointer_neq_self)
  have "heap ?s1 (brk s) = v"
    by (simp add: add_copy_simps)
  with g1 g2 held show ?thesis
    by (simp add: Let_def get_const_eq)
qed

text \<open>
  An \<open>int\<close> 7 is stored under \<open>x\<close> in the empty store and then set to 9 through
  the reference.
\<close>

theorem add_copy_get_witness:
  "typeid_of (Object ''int'' 9 :: int held) = typeid_of (Object ''int'' 7 :: int held) \<and>
   get type_name Unqualified (Named ''int'') ''x'' (add_copy (Value (Object ''int'' 7)) ''x'' start) =
     (Inr 2, add_copy (Value (Object ''int'' 7)) ''x'' start) \<and>
   heap (assign 2 (Object ''int'' 9) (add_copy (Value (Object ''int'' 7)) ''x'' start)) 2 =
     Object ''int'' 9 \<and>
   get_const type_name Unqualified (Named ''int'') ''x''
     (assign 2 (Object ''int'' 9) (add_copy (Value (Object ''int'' 7)) ''x'' start)) = Inr 2"
proof -
  have h: "typeid_of (Object ''int'' 9 :: int held) = typeid_of (Object ''int'' 7 :: int held)"
    by simp
  have b: "brk start = 2"
    by (simp add: start_def)
  from add_copy_get [OF h, where n = "''x''" and s = start and nm = type_name
      and q = Unqualified]
  show ?thesis
    by (simp add: Let_def b)
qed

subsection \<open>C2: a name that is absent\<close>

text \<open>
  Claim C2. When the name has no slot in the store (it was never inserted; in
  particular in the empty store), both forms of \<open>get<type>\<close> fail with
  \<open>ExcNameNotFound\<close> carrying exactly that name, whatever the requested type, and
  the store is left as it was.
\<close>

theorem get_missing_name:
  "mydata s n = None \<Longrightarrow>
   get nm q type n s = (Inl (ExcNameNotFound n), s) \<and>
   get_const nm q type n s = Inl (ExcNameNotFound n)"
  by (simp add: get_absent get_const_absent)

theorem get_missing_name_witness:
  "mydata start ''absent'' = None \<and>
   get type_name Unqualified (Named ''int'') ''absent'' start =
     (Inl (ExcNameNotFound ''absent''), start) \<and>
   get_const type_name Unqualified (Named ''int'') ''absent'' start =
     Inl (ExcNameNotFound ''absent'')"
proof -
  have h: "mydata start ''absent'' = None"
    by (simp add: start_def)
  from get_missing_name [OF h] show ?thesis
    using h by simp
qed

subsection \<open>C3: a request for another type\<close>

text \<open>
  Claim C3 says that after a value of type \<open>A\<close> was inserted under a name, in
  either mode, \<open>get<B>\<close> fails with \<open>ExcTypeMismatch\<close> for every type \<open>B\<close>
  other than \<open>A\<close>. The code stores a reference as a pointer and tells the two
  modes apart by the stored type alone, so a pointer type is a type \<open>B\<close> for
  which the call succeeds: after \<open>add_ref<int>\<close> of the variable at address 0,
  \<open>get<int *>\<close> returns the holder of the stored pointer (address 2). And
  \<open>add_copy\<close> of a \<open>boost::any\<close> stores its content: when that is an
  \<open>int\<close>, \<open>get<int>\<close> succeeds.
\<close>

theorem get_type_mismatch_counterexample:
  "Pointer Unqualified (Named ''int'') \<noteq> Named ''int'' \<and>
   fst (get type_name Unqualified (Pointer Unqualified (Named ''int'')) ''i''
          (add_ref Unqualified (Named ''int'') 0 ''i'' start)) = Inr 2 \<and>
   Named ''int'' \<noteq> entry_type (Any_entry (Some (Object ''int'' 7)) :: int entry) \<and>
   fst (get type_name Unqualified (Named ''int'') ''b''
          (add_copy (Any_entry (Some (Object ''int'' 7))) ''b'' start)) = Inr 2"
  by (simp add: get_add_ref get_add_copy start_def)

text \<open>
  Claim C3, amended. Let \<open>B\<close> differ from \<open>A\<close>. After \<open>add_copy\<close> of a value
  of type \<open>A\<close>, where \<open>A\<close> is neither \<open>boost::any\<close> nor an array nor the
  pointer type \<open>B *\<close>, both forms of \<open>get<B>\<close> fail with \<open>ExcTypeMismatch\<close>
  carrying the names of \<open>B\<close> and of the stored type \<open>A\<close>. After \<open>add_ref\<close> of
  a variable of type \<open>A\<close>, where \<open>B\<close> is not \<open>A *\<close>, both forms fail with
  \<open>ExcTypeMismatch\<close> carrying the names of \<open>B\<close> and of the stored type
  \<open>A *\<close>. Types are compared by identity, so a base or derived class of \<open>A\<close> is
  one more type \<open>B\<close>.
\<close>

theorem get_type_mismatch:
  "B \<noteq> A \<Longrightarrow>
   (typeid_of v = A \<and> A \<noteq> Pointer qb B \<longrightarrow>
      get nm qb B n (add_copy (Value v) n s) =
        (Inl (ExcTypeMismatch (nm B) (nm A)), add_copy (Value v) n s) \<and>
      get_const nm qb B n (add_copy (Value v) n s) =
        Inl (ExcTypeMismatch (nm B) (nm A))) \<and>
   (B \<noteq> Pointer qa A \<longrightarrow>
      get nm qb B n (add_ref qa A x n s) =
        (Inl (ExcTypeMismatch (nm B) (nm (Pointer qa A))), add_ref qa A x n s) \<and>
      get_const nm qb B n (add_ref qa A x n s) =
        Inl (ExcTypeMismatch (nm B) (nm (Pointer qa A))))"
  by (auto simp: get_add_copy_value get_add_ref get_const_eq)

text \<open>
  An \<open>int\<close>, owned or referenced, is requested as a \<open>double\<close>.
\<close>

theorem get_type_mismatch_witness:
  "Named ''double'' \<noteq> Named ''int'' \<and>
   typeid_of (Object ''int'' 7 :: int held) = Named ''int'' \<and>
   Named ''int'' \<noteq> Pointer Unqualified (Named ''double'') \<and>
   Named ''double'' \<noteq> Pointer Unqualified (Named ''int'') \<and>
   fst (get type_name Unqualified (Named ''double'') ''x''
          (add_copy (Value (Object ''int'' 7)) ''x'' start)) =
     Inl (ExcTypeMismatch ''double'' ''int'') \<and>
   fst (get type_name Unqualified (Named ''double'') ''x''
          (add_ref Unqualified (Named ''int'') 0 ''x'' start)) =
     Inl (ExcTypeMismatch ''double'' ''Pint'')"
proof -
  have h: "Named ''double'' \<noteq> Named ''int''"
    by simp
  from get_type_mismatch [OF h, where v = "Object ''int'' 7 :: int held" and nm = type_name
      and n = "''x''" and s = start and x = 0 and qa = Unqualified and qb = Unqualified]
  show ?thesis
    by simp
qed

subsection \<open>C4: when a request succeeds\<close>

text \<open>
  Claim C4 says that \<open>get<type>\<close> succeeds only on a slot made by \<open>add_ref\<close> with
  referent type \<open>type\<close> or by \<open>add_copy\<close> with value type \<open>type\<close>, and that an
  owned entry is never returned through the reference branch. The code has no
  mark for the mode: an owned pointer of type \<open>int *\<close> to the variable at address
  0 answers \<open>get<int>\<close> through the reference branch, with that variable.
\<close>

theorem get_resolution_counterexample:
  "entry_type (Value (Ptr Unqualified (Named ''int'') (Some 0)) :: int entry) \<noteq> Named ''int'' \<and>
   fst (get type_name Unqualified (Named ''int'') ''p''
          (add_copy (Value (Ptr Unqualified (Named ''int'') (Some 0))) ''p'' start)) = Inr 0"
  by (simp add: get_add_copy_value deref_def)

text \<open>
  Claim C4, amended. A slot records the type of what it stores. After \<open>add_ref\<close>
  with referent type \<open>t\<close> that is \<open>t *\<close>. After \<open>add_copy\<close> it is the type of
  the value; for an array it is the pointer type the array decays to, and for a
  \<open>boost::any\<close> it is the type of its content, the slot being empty (type
  \<open>void\<close>) when the \<open>boost::any\<close> is empty. On a name that is present,
  \<open>get<type>\<close> for an object type \<open>type\<close>, in both forms, looks at the recorded
  type only. When it is \<open>type *\<close> the call returns the object the stored pointer
  points to; else, when it is exactly \<open>type\<close>, the call returns a reference to
  the value held in the store; for every other recorded type, and for an empty
  slot, it fails with \<open>ExcTypeMismatch\<close>. So the call succeeds exactly when the
  slot holds a non-null pointer of type \<open>type *\<close> or a value of type \<open>type\<close>;
  no other type is accepted, by conversion or by inheritance.
\<close>

theorem get_resolution:
  "mydata s n = Some c \<Longrightarrow> type \<noteq> Void \<Longrightarrow>
   fst (get nm q type n s) =
     (case c of
        Empty \<Rightarrow> Inl (ExcTypeMismatch (nm type) (nm Void))
      | Holder h \<Rightarrow>
          if typeid_of (heap s h) = Pointer q type
            then (case the_pointer (heap s h) of Inl e \<Rightarrow> Inl e | Inr p \<Rightarrow> deref p)
          else if typeid_of (heap s h) = type then Inr h
          else Inl (ExcTypeMismatch (nm type) (nm (typeid_of (heap s h))))) \<and>
   get_const nm q type n s = fst (get nm q type n s) \<and>
   ((\<exists>r. fst (get nm q type n s) = Inr r) \<longleftrightarrow>
      (\<exists>h. c = Holder h \<and>
         ((\<exists>x. heap s h = Ptr q type (Some x)) \<or> typeid_of (heap s h) = type))) \<and>
   slot_type (add_ref qa t x k s) k = Some (Pointer qa t) \<and>
   slot_value (add_ref qa t x k s) k = Some (Ptr qa t (Some x)) \<and>
   slot_type (add_copy e k s) k =
     Some (case content_of e of None \<Rightarrow> Void | Some v \<Rightarrow> typeid_of v) \<and>
   slot_value (add_copy e k s) k = content_of e"
proof -
  assume slot: "mydata s n = Some c" and obj: "type \<noteq> Void"
  let ?answer = "case c of
        Empty \<Rightarrow> Inl (ExcTypeMismatch (nm type) (nm Void))
      | Holder h \<Rightarrow>
          if typeid_of (heap s h) = Pointer q type
            then (case the_pointer (heap s h) of Inl e \<Rightarrow> Inl e | Inr p \<Rightarrow> deref p)
          else if typeid_of (heap s h) = type then Inr h
          else Inl (ExcTypeMismatch (nm type) (nm (typeid_of (heap s h))))"
  have res: "fst (get nm q type n s) = ?answer"
    using slot obj by (cases c) (simp_all add: get_empty get_holder)
  have iff: "(\<exists>r. ?answer = Inr r) \<longleftrightarrow>
      (\<exists>h. c = Holder h \<and>
         ((\<exists>x. heap s h = Ptr q type (Some x)) \<or> typeid_of (heap s h) = type))"
  proof (cases c)
    case Empty
    then show ?thesis by simp
  next
    case (Holder h)
    show ?thesis
    proof (cases "heap s h")
      case (Object c' x)
      with Holder show ?thesis by simp
    next
      case (Ptr q' t p)
      with Holder show ?thesis
        by (cases p) (auto simp: deref_def Pointer_neq_self)
    qed
  qed
  from res iff show ?thesis
    by (simp only: get_const_eq slot_after_add_ref slot_after_add_copy simp_thms)
qed

text \<open>
  The slot \<open>v\<close> holds a \<open>double\<close>: a request for a \<open>double\<close> returns its
  holder.
\<close>

theorem get_resolution_witness:
  "mydata (add_copy (Value (Object ''double'' 3)) ''v'' start) ''v'' = Some (Holder 2) \<and>
   Named ''double'' \<noteq> Void \<and>
   fst (get type_name Unqualified (Named ''double'') ''v''
          (add_copy (Value (Object ''double'' 3)) ''v'' start)) = Inr 2"
proof -
  have h: "mydata (add_copy (Value (Object ''double'' 3)) ''v'' start) ''v'' = Some (Holder 2)"
    by (simp add: add_copy_simps start_def)
  have o: "Named ''double'' \<noteq> Void"
    by simp
  have v: "heap (add_copy (Value (Object ''double'' 3)) ''v'' start) 2 = Object ''double'' 3"
    by (simp add: add_copy_simps start_def)
  from get_resolution [OF h o, where nm = type_name and q = Unqualified]
  show ?thesis
    using h by (simp add: v)
qed

subsection \<open>C5: a referenced variable is the object retrieved\<close>

text \<open>
  Claim C5 says, for its second half, that a value of any type inserted by
  \<open>add_copy\<close> is retrieved as a copy with an equal value. An empty
  \<open>boost::any\<close> leaves an empty slot, and \<open>get<boost::any>\<close> fails with
  \<open>ExcTypeMismatch\<close>. An array of two \<open>double\<close> at address 1 leaves a
  pointer to its first element, no copy of the array, and \<open>get<double[2]>\<close>
  fails too.
\<close>

theorem add_ref_aliases_counterexample:
  "entry_type (Any_entry None :: int entry) = Boost_any \<and>
   fst (get type_name Unqualified Boost_any ''a'' (add_copy (Any_entry None) ''a'' start)) =
     Inl (ExcTypeMismatch ''N5boost3anyE'' ''v'') \<and>
   entry_type (Array_entry (Named ''double'') 2 1 :: int entry) =
     Array_of (Named ''double'') 2 \<and>
   slot_value (add_copy (Array_entry (Named ''double'') 2 1 :: int entry) ''d'' start) ''d'' =
     Some (Ptr Const (Named ''double'') (Some 1)) \<and>
   fst (get type_name Unqualified (Array_of (Named ''double'') 2) ''d''
          (add_copy (Array_entry (Named ''double'') 2 1 :: int entry) ''d'' start)) =
     Inl (ExcTypeMismatch ''A_double'' ''PKdouble'')"
  by (simp add: get_add_copy slot_after_add_copy)

text \<open>
  Claim C5, amended. Let \<open>x\<close> be the address of a live variable that is not the
  value the store itself holds under the name \<open>n\<close>. After \<open>add_ref<type>\<close> of
  the variable under \<open>n\<close>, \<open>get<type>\<close> of \<open>n\<close> returns the address \<open>x\<close>
  itself, the variable is still live and untouched, so an assignment through the
  returned reference is an assignment to the variable; and after an assignment to
  the variable, \<open>get<type>\<close> still returns \<open>x\<close>, whose value is the new one.
  After \<open>add_copy\<close> of the variable's value, of a type that is neither
  \<open>boost::any\<close> nor an array, \<open>get\<close> returns another address, the holder, with
  an equal value, and a later assignment to the variable does not change the
  value held.
\<close>

theorem add_ref_aliases:
  "valid s x \<Longrightarrow> mydata s n \<noteq> Some (Holder x) \<Longrightarrow>
   (let s1 = add_ref q type x n s; s2 = assign x v' s1
    in get nm q type n s1 = (Inr x, s1) \<and> valid s1 x \<and> heap s1 x = heap s x \<and>
       get nm q type n s2 = (Inr x, s2) \<and> heap s2 x = v' \<and>
       get_const nm q type n s1 = Inr x \<and> get_const nm q type n s2 = Inr x) \<and>
   (let v = heap s x; s1 = add_copy (Value v) n s; s2 = assign x v' s1
    in get nm q (typeid_of v) n s1 = (Inr (brk s), s1) \<and> brk s \<noteq> x \<and>
       heap s1 (brk s) = heap s1 x \<and> heap s2 (brk s) = v)"
proof -
  assume live: "valid s x" and ext: "mydata s n \<noteq> Some (Holder x)"
  from live have below: "x < brk s" and kept: "x \<notin> freed s"
    by (simp_all add: valid_def)
  let ?s1 = "add_ref q type x n s"
  let ?s2 = "assign x v' ?s1"
  have g1: "get nm q type n ?s1 = (Inr x, ?s1)"
    by (simp add: get_add_ref)
  have "x \<notin> freed ?s1"
    using kept ext by (auto simp: add_ref_simps split: option.splits any.splits)
  with below have live1: "valid ?s1 x"
    by (simp add: valid_def add_ref_simps)
  have slot: "mydata ?s2 n = Some (Holder (brk s))"
    by (simp add: assign_simps add_ref_simps)
  from below have held: "heap ?s2 (brk s) = Ptr q type (Some x)"
    by (simp add: assign_simps add_ref_simps)
  have g2: "get nm q type n ?s2 = (Inr x, ?s2)"
    by (simp add: get_holder [OF slot] held deref_def)
  from below have same: "heap ?s1 x = heap s x"
    by (simp add: add_ref_simps)
  have new: "heap ?s2 x = v'"
    by (simp add: assign_simps)
  have ref: "get nm q type n ?s1 = (Inr x, ?s1) \<and> valid ?s1 x \<and> heap ?s1 x = heap s x \<and>
       get nm q type n ?s2 = (Inr x, ?s2) \<and> heap ?s2 x = v' \<and>
       get_const nm q type n ?s1 = Inr x \<and> get_const nm q type n ?s2 = Inr x"
    using g1 g2 live1 same new by (simp add: get_const_eq)
  let ?c1 = "add_copy (Value (heap s x)) n s"
  have c1: "get nm q (typeid_of (heap s x)) n ?c1 = (Inr (brk s), ?c1)"
    by (simp add: get_add_copy_value Pointer_neq_self)
  from below have c2: "brk s \<noteq> x" "heap ?c1 (brk s) = heap ?c1 x"
    "heap (assign x v' ?c1) (brk s) = heap s x"
    by (simp_all add: add_copy_simps assign_simps)
  from ref c1 c2 show ?thesis
    by (simp add: Let_def)
qed

text \<open>
  The \<open>int\<close> at address 0 holds 5. It is inserted by reference under \<open>i\<close> and
  then set to 7; \<open>get<int>\<close> returns address 0, where 7 is read. Inserted by
  copy, it is retrieved at address 2.
\<close>

theorem add_ref_aliases_witness:
  "valid start 0 \<and> mydata start ''i'' \<noteq> Some (Holder 0) \<and>
   fst (get type_name Unqualified (Named ''int'') ''i''
          (assign 0 (Object ''int'' 7) (add_ref Unqualified (Named ''int'') 0 ''i'' start))) =
     Inr 0 \<and>
   heap (assign 0 (Object ''int'' 7) (add_ref Unqualified (Named ''int'') 0 ''i'' start)) 0 =
     Object ''int'' 7 \<and>
   fst (get type_name Unqualified (Named ''int'') ''i''
          (add_copy (Value (Object ''int'' 5)) ''i'' start)) = Inr 2"
proof -
  have h1: "valid start 0"
    by (simp add: valid_def start_def)
  have h2: "mydata start ''i'' \<noteq> Some (Holder 0)"
    by (simp add: start_def)
  have b: "brk start = 2" "heap start 0 = Object ''int'' 5"
    by (simp_all add: start_def)
  from add_ref_aliases [OF h1 h2, where type = "Named ''int''" and v' = "Object ''int'' 7"
      and nm = type_name and q = Unqualified]
  show ?thesis
    using h1 h2 by (simp add: Let_def b)
qed

subsection \<open>C6: a second insertion under the same name\<close>



subsection \<open>C7: the two forms of get\<close>

text \<open>
  Claim C7. For every store, name and requested type the read-only \<open>get\<close> gives
  the result of the mutable one: the same address on success, the same error
  with the same payload on failure. The mutable form allocates nothing and writes
  nothing, so the address is that of an object that existed before the call: the
  value held in the slot or the referent of the held pointer, not a copy.
\<close>

theorem get_const_agrees:
  "get_const nm q type n s = fst (get nm q type n s) \<and>
   brk (snd (get nm q type n s)) = brk s \<and>
   heap (snd (get nm q type n s)) = heap s"
  by (simp add: get_const_eq get_state)

subsection \<open>C8: insertion always works, retrieval has two ways to fail\<close>

text \<open>
  Claim C8 says that every \<open>get\<close> returns a valid reference or fails with
  \<open>ExcNameNotFound\<close> or \<open>ExcTypeMismatch\<close>. \<open>add_copy\<close> accepts any pointer of
  type \<open>int *\<close>, and \<open>get<int>\<close> then takes the reference branch with it. A
  null pointer is dereferenced, which is neither outcome; a pointer to an address
  where no object lives comes back as the reference.
\<close>

theorem get_all_or_nothing_counterexample:
  "fst (get type_name Unqualified (Named ''int'') ''q''
          (add_copy (Value (Ptr Unqualified (Named ''int'') None)) ''q'' start)) =
     Inl null_dereference \<and>
   fst (get type_name Unqualified (Named ''int'') ''w''
          (add_copy (Value (Ptr Unqualified (Named ''int'') (Some 999))) ''w'' start)) =
     Inr 999 \<and>
   \<not> valid (add_copy (Value (Ptr Unqualified (Named ''int'') (Some 999))) ''w'' start) 999"
  by (simp add: get_add_copy_value deref_def valid_def add_copy_simps start_def)

text \<open>
  Claim C8, amended. \<open>add_copy\<close> and \<open>add_ref\<close> return a store in which the name,
  the empty string included, has a slot: they have no way to fail. Let \<open>type\<close>
  be an object type and let the slot of the name, if it holds a pointer of type
  \<open>type *\<close>, hold one that points to a live object (which \<open>add_ref\<close> stores
  as long as the variable lives); the holder of the slot is live, as it is in
  every store the class builds. Then each form of \<open>get<type>\<close> either returns a
  reference to a live object, the value held in the slot or the object the held
  pointer points to, or fails with \<open>ExcNameNotFound\<close> and the name (the name is
  absent) or with \<open>ExcTypeMismatch\<close> and the names of the requested and of the
  recorded type (the name is present), and nothing else; the store is the same
  afterwards.
\<close>

theorem get_all_or_nothing:
  "type \<noteq> Void \<Longrightarrow> holder_valid s n \<Longrightarrow> target_valid q type n s \<Longrightarrow>
   all_or_nothing nm q type n s (fst (get nm q type n s)) \<and>
   all_or_nothing nm q type n s (get_const nm q type n s) \<and>
   snd (get nm q type n s) = s \<and>
   mydata (add_copy e k s) k =
     Some (case content_of e of None \<Rightarrow> Empty | Some v \<Rightarrow> Holder (brk s)) \<and>
   mydata (add_ref qa t x k s) k = Some (Holder (brk s))"
proof -
  assume obj: "type \<noteq> Void" and hv: "holder_valid s n"
    and tv: "target_valid q type n s"
  have res: "all_or_nothing nm q type n s (fst (get nm q type n s))"
  proof (cases "mydata s n")
    case None
    then show ?thesis
      by (simp add: get_absent all_or_nothing_def)
  next
    case (Some c)
    show ?thesis
    proof (cases c)
      case Empty
      with Some obj show ?thesis
        by (simp add: get_empty all_or_nothing_def any_type_def)
    next
      case (Holder h)
      note slot = Some [unfolded Holder]
      from hv slot have live: "valid s h"
        by (simp add: holder_valid_def)
      show ?thesis
      proof (cases "heap s h")
        case (Object c x)
        with slot live show ?thesis
          by (simp add: get_holder all_or_nothing_def any_type_def)
      next
        case (Ptr q' t p)
        show ?thesis
        proof (cases "q' = q \<and> t = type")
          case True
          with tv slot Ptr obtain a where "p = Some a" "valid s a"
            by (auto simp: target_valid_def split: option.splits)
          with slot Ptr True show ?thesis
            by (simp add: get_holder all_or_nothing_def deref_def)
        next
          case False
          with slot Ptr live show ?thesis
            by (auto simp: get_holder all_or_nothing_def any_type_def)
        qed
      qed
    qed
  qed
  have "mydata (add_copy e k s) k =
     Some (case content_of e of None \<Rightarrow> Empty | Some v \<Rightarrow> Holder (brk s))"
    "mydata (add_ref qa t x k s) k = Some (Holder (brk s))"
    by (simp_all add: add_copy_simps add_ref_simps)
  with res show ?thesis
    by (simp add: get_const_eq get_state)
qed

text \<open>
  The variable at address 0 is inserted by reference under \<open>i\<close>: a request for
  an \<open>int\<close> returns address 0, a live object, and a request for a \<open>double\<close>
  is an \<open>ExcTypeMismatch\<close>. An insertion under the empty string makes a slot.
\<close>

theorem get_all_or_nothing_witness:
  "Named ''int'' \<noteq> Void \<and>
   holder_valid (add_ref Unqualified (Named ''int'') 0 ''i'' start) ''i'' \<and>
   target_valid Unqualified (Named ''int'') ''i''
     (add_ref Unqualified (Named ''int'') 0 ''i'' start) \<and>
   all_or_nothing type_name Unqualified (Named ''int'') ''i''
     (add_ref Unqualified (Named ''int'') 0 ''i'' start) (Inr 0) \<and>
   fst (get type_name Unqualified (Named ''int'') ''i''
          (add_ref Unqualified (Named ''int'') 0 ''i'' start)) = Inr 0 \<and>
   mydata (add_copy (Value (Object ''int'' 7)) ''''
             (add_ref Unqualified (Named ''int'') 0 ''i'' start)) '''' = Some (Holder 3)"
proof -
  let ?s = "add_ref Unqualified (Named ''int'') 0 ''i'' start :: int state"
  have h1: "Named ''int'' \<noteq> Void"
    by simp
  have h2: "holder_valid ?s ''i''"
    by (simp add: holder_valid_def valid_def add_ref_simps start_def)
  have h3: "target_valid Unqualified (Named ''int'') ''i'' ?s"
    by (simp add: target_valid_def valid_def add_ref_simps start_def)
  have g: "fst (get type_name Unqualified (Named ''int'') ''i'' ?s) = Inr 0"
    by (simp add: get_add_ref)
  have b: "brk ?s = 3"
    by (simp add: add_ref_simps start_def)
  from get_all_or_nothing [OF h1 h2 h3, where nm = type_name
      and e = "Value (Object ''int'' 7)" and k = "''''"]
  show ?thesis
    using h1 h2 h3 by (simp add: g b)
qed

subsection \<open>C9: the slots of the other names\<close>

text \<open>
  Claim C9. Let \<open>m\<close> and \<open>n\<close> be different names, the holder of the slot of \<open>m\<close>
  being allocated. An insertion under \<open>n\<close>, by \<open>add_copy\<close> or by \<open>add_ref\<close>,
  leaves the slot of \<open>m\<close> as it is: the same entry of the map, the same recorded
  type, the same value held, and the same answer of \<open>get\<close> of \<open>m\<close> for every
  requested type. A call of \<open>get\<close>, of any name \<open>k\<close>, changes neither the
  recorded type nor the value of the slot of \<open>m\<close>. So the type observed at a name
  changes by an insertion under that name only.
\<close>

theorem other_slots_unchanged:
  "m \<noteq> n \<Longrightarrow> allocated s m \<Longrightarrow>
   mydata (add_copy e n s) m = mydata s m \<and>
   slot_type (add_copy e n s) m = slot_type s m \<and>
   slot_value (add_copy e n s) m = slot_value s m \<and>
   fst (get nm q type m (add_copy e n s)) = fst (get nm q type m s) \<and>
   mydata (add_ref qa t x n s) m = mydata s m \<and>
   slot_type (add_ref qa t x n s) m = slot_type s m \<and>
   slot_value (add_ref qa t x n s) m = slot_value s m \<and>
   fst (get nm q type m (add_ref qa t x n s)) = fst (get nm q type m s) \<and>
   slot_type (snd (get nm q type k s)) m = slot_type s m \<and>
   slot_value (snd (get nm q type k s)) m = slot_value s m"
proof -
  assume other: "m \<noteq> n" and alloc: "allocated s m"
  from alloc have below: "h \<noteq> brk s" if "mydata s m = Some (Holder h)" for h
    using that by (auto simp: allocated_def)
  from other have map_copy: "mydata (add_copy e n s) m = mydata s m"
    and map_ref: "mydata (add_ref qa t x n s) m = mydata s m"
    by (simp_all add: add_copy_simps add_ref_simps)
  have heap_copy: "heap (add_copy e n s) h = heap s h"
    and heap_ref: "heap (add_ref qa t x n s) h = heap s h"
    if "mydata s m = Some (Holder h)" for h
    using below [OF that] by (simp_all add: add_copy_simps add_ref_simps split: option.splits)
  have copy: "slot_type (add_copy e n s) m = slot_type s m \<and>
    slot_value (add_copy e n s) m = slot_value s m"
    using map_copy heap_copy by (rule slot_other_name)
  have ref: "slot_type (add_ref qa t x n s) m = slot_type s m \<and>
    slot_value (add_ref qa t x n s) m = slot_value s m"
    using map_ref heap_ref by (rule slot_other_name)
  have get_copy: "fst (get nm q type m (add_copy e n s)) = fst (get nm q type m s)"
    using map_copy heap_copy by (rule get_other_name)
  have get_ref: "fst (get nm q type m (add_ref qa t x n s)) = fst (get nm q type m s)"
    using map_ref heap_ref by (rule get_other_name)
  from map_copy map_ref copy ref get_copy get_ref show ?thesis
    by (simp add: get_state)
qed

text \<open>
  The store holds a \<open>double\<close> under \<open>b\<close>; an \<open>int\<close> is inserted under \<open>a\<close>.
\<close>

theorem other_slots_unchanged_witness:
  "''b'' \<noteq> ''a'' \<and> allocated (add_copy (Value (Object ''double'' 3)) ''b'' start) ''b'' \<and>
   slot_type (add_copy (Value (Object ''int'' 7)) ''a''
                (add_copy (Value (Object ''double'' 3)) ''b'' start)) ''b'' =
     Some (Named ''double'') \<and>
   slot_value (add_ref Unqualified (Named ''int'') 0 ''a''
                 (add_copy (Value (Object ''double'' 3)) ''b'' start)) ''b'' =
     Some (Object ''double'' 3)"
proof -
  have h1: "''b'' \<noteq> ''a''"
    by simp
  have h2: "allocated (add_copy (Value (Object ''double'' 3)) ''b'' start) ''b''"
    by (simp add: allocated_def add_copy_simps)
  have b: "slot_type (add_copy (Value (Object ''double'' 3)) ''b'' start) ''b'' =
      Some (Named ''double'')"
    "slot_value (add_copy (Value (Object ''double'' 3)) ''b'' start) ''b'' =
      Some (Object ''double'' 3)"
    by (simp_all add: slot_after_add_copy)
  from other_slots_unchanged [OF h1 h2, where e = "Value (Object ''int'' 7)"
      and t = "Named ''int''" and x = 0 and qa = Unqualified]
  show ?thesis
    using h1 h2 by (simp add: b)
qed

subsection \<open>C10: get leaves the store as it is\<close>

text \<open>
  Claim C10. The mutable \<open>get\<close> reads the map with \<open>operator[]\<close>, which could
  create a slot; it does so only after the check that the name is present, so
  the state after the call is the state before it, whether the call succeeds,
  fails with \<open>ExcNameNotFound\<close> or fails with \<open>ExcTypeMismatch\<close>: the same
  names, the same slot under each name, no entry for a name that was looked up in
  vain. The read-only \<open>get\<close> is a function of the state and has none to return.
\<close>

theorem get_leaves_store:
  "snd (get nm q type n s) = s \<and>
   mydata (snd (get nm q type n s)) = mydata s \<and>
   dom (mydata (snd (get nm q type n s))) = dom (mydata s)"
  by (simp add: get_state)

end
